theory Spec2Isabelle
  imports Complex_Main "HOL-Library.AList"
begin

section \<open>Python values and builtins used by sentiment_generator.py\<close>

text \<open>
  Everything the script reads back from disk went through \<^verbatim>\<open>json.load\<close>, so the
  previous state and the history are arbitrary JSON values. A Python \<^verbatim>\<open>dict\<close> keeps
  insertion order, hence an association list; \<^verbatim>\<open>None\<close> is \<open>JNull\<close>.

  Python floats are modelled as exact reals: there is no rounding error, no overflow and no
  NaN or infinity in this development. Python ints are unbounded, as \<open>int\<close> is.
\<close>

datatype json =
    JNull
  | JBool bool
  | JInt int
  | JFloat real
  | JStr string
  | JList "json list"
  | JDict "(string \<times> json) list"

datatype py_error = AttributeError | TypeError | KeyError

text \<open>Sequencing of computations that may raise: the first exception wins.\<close>

definition bind_err :: "py_error + 'a \<Rightarrow> ('a \<Rightarrow> py_error + 'b) \<Rightarrow> py_error + 'b" where
  "bind_err m f = (case m of Inl e \<Rightarrow> Inl e | Inr x \<Rightarrow> f x)"

text \<open>
  \<^verbatim>\<open>round(x)\<close> on a float with no digits argument: the nearest integer, a tie going to
  the even neighbour (\<^verbatim>\<open>round(27.5) == 28\<close>, \<^verbatim>\<open>round(28.5) == 28\<close>).
\<close>

definition py_round :: "real \<Rightarrow> int" where
  "py_round x =
     (let f = \<lfloor>x\<rfloor>; d = x - of_int f
      in if d < 1/2 then f
         else if 1/2 < d then f + 1
         else if even f then f else f + 1)"

text \<open>\<^verbatim>\<open>d.get(key)\<close> on a dict: the stored value, \<^verbatim>\<open>None\<close> when the key is absent.\<close>

definition dict_get :: "(string \<times> json) list \<Rightarrow> string \<Rightarrow> json" where
  "dict_get kvs key = (case map_of kvs key of Some v \<Rightarrow> v | None \<Rightarrow> JNull)"

text \<open>
  \<^verbatim>\<open>obj.get(key)\<close> on an arbitrary value: only a dict has the method, every other JSON
  value raises \<^verbatim>\<open>AttributeError\<close>.
\<close>

definition py_get :: "json \<Rightarrow> string \<Rightarrow> py_error + json" where
  "py_get obj key = (case obj of JDict kvs \<Rightarrow> Inr (dict_get kvs key) | _ \<Rightarrow> Inl AttributeError)"

text \<open>\<^verbatim>\<open>d[key]\<close> on a dict of the script's own making: \<^verbatim>\<open>KeyError\<close> when absent.\<close>

definition py_item :: "(string \<times> 'a) list \<Rightarrow> string \<Rightarrow> py_error + 'a" where
  "py_item kvs key = (case map_of kvs key of Some v \<Rightarrow> Inr v | None \<Rightarrow> Inl KeyError)"

text \<open>\<^verbatim>\<open>obj[key]\<close> with a string key on an arbitrary JSON value.\<close>

definition py_getitem :: "json \<Rightarrow> string \<Rightarrow> py_error + json" where
  "py_getitem obj key =
     (case obj of
        JDict kvs \<Rightarrow> py_item kvs key
      | _ \<Rightarrow> Inl TypeError)"

text \<open>\<^verbatim>\<open>p in s\<close> on two strings: \<open>p\<close> occurs in \<open>s\<close> as a contiguous run.\<close>

fun contains_str :: "string \<Rightarrow> string \<Rightarrow> bool" where
  "contains_str p [] = (p = [])"
| "contains_str p (c # cs) = (take (length p) (c # cs) = p \<or> contains_str p cs)"

text \<open>
  \<^verbatim>\<open>key in obj\<close>: a key of a dict, an element of a list, a substring of a string;
  \<^verbatim>\<open>None\<close>, booleans and numbers are not containers and raise \<^verbatim>\<open>TypeError\<close>.
\<close>

definition py_contains :: "string \<Rightarrow> json \<Rightarrow> py_error + bool" where
  "py_contains key obj =
     (case obj of
        JDict kvs \<Rightarrow> Inr (map_of kvs key \<noteq> None)
      | JList xs \<Rightarrow> Inr (List.member xs (JStr key))
      | JStr s \<Rightarrow> Inr (contains_str key s)
      | _ \<Rightarrow> Inl TypeError)"

text \<open>\<^verbatim>\<open>isinstance(v, list)\<close> and \<^verbatim>\<open>isinstance(v, dict)\<close>.\<close>

definition is_list :: "json \<Rightarrow> bool" where
  "is_list v = (case v of JList _ \<Rightarrow> True | _ \<Rightarrow> False)"

definition is_dict :: "json \<Rightarrow> bool" where
  "is_dict v = (case v of JDict _ \<Rightarrow> True | _ \<Rightarrow> False)"

text \<open>
  \<^verbatim>\<open>isinstance(v, (int, float))\<close> together with the number it stands for. In Python
  \<^verbatim>\<open>bool\<close> is a subclass of \<^verbatim>\<open>int\<close>, so \<^verbatim>\<open>True\<close> and \<^verbatim>\<open>False\<close> pass the test
  and count as 1 and 0.
\<close>

definition as_number :: "json \<Rightarrow> real option" where
  "as_number v =
     (case v of
        JInt i \<Rightarrow> Some (of_int i)
      | JFloat x \<Rightarrow> Some x
      | JBool b \<Rightarrow> Some (if b then 1 else 0)
      | _ \<Rightarrow> None)"

section \<open>Signal sources and driver mappers\<close>

definition MAX_HISTORY_POINTS :: nat where
  "MAX_HISTORY_POINTS = 200"

text \<open>
  \<^verbatim>\<open>get_fear_greed\<close>: the argument is the outcome of the \<^verbatim>\<open>try\<close> body (request, status
  check, decoding and \<^verbatim>\<open>int(data["data"][0]["value"])\<close>): \<open>None\<close> when any of it raised.
  The value is returned as it came.
\<close>

definition get_fear_greed :: "int option \<Rightarrow> int" where
  "get_fear_greed reply = (case reply of Some v \<Rightarrow> v | None \<Rightarrow> 50)"

text \<open>\<^verbatim>\<open>get_btc_price_change\<close>: likewise, with the neutral fallback 0.0.\<close>

definition get_btc_price_change :: "real option \<Rightarrow> real" where
  "get_btc_price_change reply = (case reply of Some c \<Rightarrow> c | None \<Rightarrow> 0)"

definition price_action_sentiment :: "real \<Rightarrow> int" where
  "price_action_sentiment change_24h =
     (let ch = max (-10) (min 10 change_24h);
          v = 50 + ch * 3
      in max 0 (min 100 (py_round v)))"

text \<open>
  \<^verbatim>\<open>get_liquidity_sentiment\<close>, the part after both requests succeeded: \<open>vol_now\<close> is the
  current volume and \<open>vols\<close> the list built from \<^verbatim>\<open>total_volumes\<close>.
\<close>

definition liquidity_score :: "real \<Rightarrow> real list \<Rightarrow> int" where
  "liquidity_score vol_now vols =
     (if vols = [] then 50
      else
        let avg_vol = sum_list vols / of_nat (length vols)
        in if avg_vol \<le> 0 then 50
           else
             let ratio = max (1/4) (min (5/2) (vol_now / avg_vol));
                 score = 50 + (ratio - 1) * 30
             in max 0 (min 100 (py_round score)))"

text \<open>
  The whole function: each argument is \<open>None\<close> when its request, its decoding or a
  \<^verbatim>\<open>float(...)\<close> conversion raised, which the \<^verbatim>\<open>except\<close> clause turns into 50.
\<close>

definition get_liquidity_sentiment :: "real option \<Rightarrow> real list option \<Rightarrow> int" where
  "get_liquidity_sentiment now_reply hist_reply =
     (case now_reply of
        None \<Rightarrow> 50
      | Some vol_now \<Rightarrow>
          (case hist_reply of
             None \<Rightarrow> 50
           | Some vols \<Rightarrow> liquidity_score vol_now vols))"

section \<open>Mean-reverting simulation\<close>

definition get_prev_driver_value :: "json \<Rightarrow> string \<Rightarrow> real \<Rightarrow> real" where
  "get_prev_driver_value prev_state name dflt =
     (case prev_state of
        JDict kvs \<Rightarrow>
          (let drivers = (case map_of kvs ''drivers'' of Some d \<Rightarrow> d | None \<Rightarrow> JDict [])
           in case drivers of
                JDict ds \<Rightarrow>
                  (case as_number (dict_get ds name) of Some x \<Rightarrow> x | None \<Rightarrow> dflt)
              | _ \<Rightarrow> dflt)
      | _ \<Rightarrow> dflt)"

text \<open>
  \<^verbatim>\<open>simulate_driver\<close>: \<open>noise\<close> is the value \<^verbatim>\<open>random.uniform(-volatility, volatility)\<close>
  returned, a number between its two arguments.
\<close>

definition simulate_driver :: "string \<Rightarrow> json \<Rightarrow> real \<Rightarrow> real \<Rightarrow> real \<Rightarrow> real \<Rightarrow> int" where
  "simulate_driver name prev_state base volatility mean_reversion noise =
     (let prev_val = get_prev_driver_value prev_state name base;
          reversion = mean_reversion * (base - prev_val);
          new_val = prev_val + noise + reversion
      in max 0 (min 100 (py_round new_val)))"

definition get_news_sentiment :: "json \<Rightarrow> real \<Rightarrow> int" where
  "get_news_sentiment prev_state noise = simulate_driver ''news'' prev_state 50 6 (4/10) noise"

definition get_social_sentiment :: "json \<Rightarrow> real \<Rightarrow> int" where
  "get_social_sentiment prev_state noise = simulate_driver ''social'' prev_state 50 8 (45/100) noise"

definition get_onchain_sentiment :: "json \<Rightarrow> real \<Rightarrow> int" where
  "get_onchain_sentiment prev_state noise = simulate_driver ''on_chain'' prev_state 50 5 (35/100) noise"

section \<open>State (for deltas)\<close>

text \<open>
  What \<^verbatim>\<open>os.path.exists\<close>, \<^verbatim>\<open>open\<close> and \<^verbatim>\<open>json.load\<close> make of a file: it does not
  exist, reading or parsing it raises, or it parses to a JSON value.
\<close>

datatype file_read = FileMissing | LoadRaises | Loaded json

definition load_previous_state :: "file_read \<Rightarrow> json" where
  "load_previous_state f =
     (case f of
        FileMissing \<Rightarrow> JDict []
      | LoadRaises \<Rightarrow> JDict []
      | Loaded v \<Rightarrow> v)"

text \<open>\<^verbatim>\<open>{k: int(v) for k, v in driver_values.items()}\<close> as JSON.\<close>

definition drivers_json :: "(string \<times> int) list \<Rightarrow> json" where
  "drivers_json driver_values = JDict (map (\<lambda>(k, v). (k, JInt v)) driver_values)"

text \<open>\<^verbatim>\<open>save_state\<close>: the value dumped to the state file; \<open>now\<close> is the clock's ISO string.\<close>

definition save_state :: "(string \<times> int) list \<Rightarrow> string \<Rightarrow> json" where
  "save_state driver_values now =
     JDict [(''drivers'', drivers_json driver_values), (''timestamp'', JStr now)]"

text \<open>
  One pass of the loop of \<^verbatim>\<open>compute_deltas\<close>: \<^verbatim>\<open>int(round(val - prev_val))\<close> when
  \<^verbatim>\<open>prev_val\<close> is an int or a float, 0 otherwise. The difference of two ints is an int,
  which \<^verbatim>\<open>round\<close> leaves alone.
\<close>

definition delta_of :: "int \<Rightarrow> json \<Rightarrow> int" where
  "delta_of val prev_val =
     (case prev_val of
        JInt p \<Rightarrow> val - p
      | JBool b \<Rightarrow> val - (if b then 1 else 0)
      | JFloat x \<Rightarrow> py_round (of_int val - x)
      | _ \<Rightarrow> 0)"

fun deltas_loop :: "json \<Rightarrow> (string \<times> int) list \<Rightarrow> (string \<times> int) list
    \<Rightarrow> py_error + (string \<times> int) list" where
  "deltas_loop prev_drivers [] deltas = Inr deltas"
| "deltas_loop prev_drivers ((key, val) # rest) deltas =
     bind_err (py_get prev_drivers key)
       (\<lambda>prev_val. deltas_loop prev_drivers rest (AList.update key (delta_of val prev_val) deltas))"

definition compute_deltas :: "(string \<times> int) list \<Rightarrow> json \<Rightarrow> py_error + (string \<times> int) list" where
  "compute_deltas current previous =
     (let prev_drivers =
            (case previous of
               JDict kvs \<Rightarrow> (case map_of kvs ''drivers'' of Some d \<Rightarrow> d | None \<Rightarrow> JDict [])
             | _ \<Rightarrow> JDict [])
      in deltas_loop prev_drivers current [])"

section \<open>History (for sparklines)\<close>

definition empty_history :: json where
  "empty_history = JDict [(''points'', JList [])]"

text \<open>The body of the \<^verbatim>\<open>try\<close> in \<^verbatim>\<open>load_history\<close>, once \<^verbatim>\<open>json.load\<close> returned.\<close>

definition load_history_body :: "json \<Rightarrow> py_error + json" where
  "load_history_body data =
     bind_err (py_contains ''points'' data)
       (\<lambda>has_points.
          if \<not> has_points then Inr empty_history
          else bind_err (py_getitem data ''points'')
                 (\<lambda>pts. if \<not> is_list pts then Inr empty_history else Inr data))"

definition load_history :: "file_read \<Rightarrow> json" where
  "load_history f =
     (case f of
        FileMissing \<Rightarrow> empty_history
      | LoadRaises \<Rightarrow> empty_history
      | Loaded data \<Rightarrow>
          (case load_history_body data of
             Inl e \<Rightarrow> empty_history
           | Inr h \<Rightarrow> h))"

text \<open>The new history entry; \<open>now\<close> is the clock's ISO string.\<close>

definition history_entry :: "string \<Rightarrow> int \<Rightarrow> (string \<times> int) list \<Rightarrow> json" where
  "history_entry now total_value driver_values =
     JDict [(''timestamp'', JStr now), (''total'', JInt total_value),
            (''drivers'', drivers_json driver_values)]"

text \<open>
  \<^verbatim>\<open>points.append(entry)\<close> followed by the cut to the last \<^verbatim>\<open>MAX_HISTORY_POINTS\<close>
  elements (\<^verbatim>\<open>points[-MAX_HISTORY_POINTS:]\<close>).
\<close>

definition append_point :: "json list \<Rightarrow> json \<Rightarrow> json list" where
  "append_point points entry =
     (let points1 = points @ [entry]
      in if length points1 > MAX_HISTORY_POINTS
         then drop (length points1 - MAX_HISTORY_POINTS) points1
         else points1)"

text \<open>
  \<^verbatim>\<open>update_history\<close>: the value dumped to the history file. \<^verbatim>\<open>history.get\<close> needs a
  dict and \<^verbatim>\<open>points.append\<close> a list; anything else raises \<^verbatim>\<open>AttributeError\<close>.
\<close>

definition update_history :: "file_read \<Rightarrow> string \<Rightarrow> int \<Rightarrow> (string \<times> int) list \<Rightarrow> py_error + json" where
  "update_history f now total_value driver_values =
     (case load_history f of
        JDict kvs \<Rightarrow>
          (case (case map_of kvs ''points'' of Some p \<Rightarrow> p | None \<Rightarrow> JList []) of
             JList points \<Rightarrow>
               Inr (JDict (AList.update ''points''
                      (JList (append_point points (history_entry now total_value driver_values))) kvs))
           | _ \<Rightarrow> Inl AttributeError)
      | _ \<Rightarrow> Inl AttributeError)"

section \<open>Main calculation\<close>

text \<open>Everything one run reads from outside: the two files, the four replies, the three
  random draws and the three clock readings.\<close>

record world =
  state_file :: file_read
  history_file :: file_read
  fng_reply :: "int option"
  price_reply :: "real option"
  vol_now_reply :: "real option"
  vol_hist_reply :: "real list option"
  noise_news :: real
  noise_social :: real
  noise_onchain :: real
  now_payload :: string
  now_state :: string
  now_history :: string

definition weights :: "(string \<times> real) list" where
  "weights =
     [(''fear_greed'', 20/100), (''news'', 15/100), (''social'', 15/100),
      (''price_action'', 20/100), (''on_chain'', 15/100), (''liquidity'', 15/100)]"

text \<open>The loop accumulating \<^verbatim>\<open>numerator\<close> and \<^verbatim>\<open>denom\<close> over \<^verbatim>\<open>weights.items()\<close>.\<close>

fun total_loop :: "(string \<times> int) list \<Rightarrow> (string \<times> real) list \<Rightarrow> real \<times> real
    \<Rightarrow> py_error + real \<times> real" where
  "total_loop driver_values [] acc = Inr acc"
| "total_loop driver_values ((key, w) # rest) (numerator, denom) =
     bind_err (py_item driver_values key)
       (\<lambda>v. total_loop driver_values rest (numerator + of_int v * w, denom + w))"

definition total_value_of :: "(string \<times> int) list \<Rightarrow> (string \<times> real) list \<Rightarrow> py_error + int" where
  "total_value_of driver_values ws =
     bind_err (total_loop driver_values ws (0, 0))
       (\<lambda>(numerator, denom). Inr (if denom > 0 then py_round (numerator / denom) else 50))"

text \<open>One record of \<^verbatim>\<open>drivers_struct\<close>.\<close>

definition driver_record :: "(string \<times> int) list \<Rightarrow> (string \<times> int) list \<Rightarrow> string \<Rightarrow> string
    \<Rightarrow> py_error + string \<times> json" where
  "driver_record driver_values deltas key label =
     bind_err (py_item driver_values key)
       (\<lambda>v. bind_err (py_item deltas key)
          (\<lambda>d. Inr (key, JDict [(''label'', JStr label), (''value'', JInt v), (''delta'', JInt d)])))"

fun drivers_struct :: "(string \<times> int) list \<Rightarrow> (string \<times> int) list \<Rightarrow> (string \<times> string) list
    \<Rightarrow> py_error + (string \<times> json) list" where
  "drivers_struct driver_values deltas [] = Inr []"
| "drivers_struct driver_values deltas ((key, label) # rest) =
     bind_err (driver_record driver_values deltas key label)
       (\<lambda>r. bind_err (drivers_struct driver_values deltas rest) (\<lambda>rs. Inr (r # rs)))"

definition driver_labels :: "(string \<times> string) list" where
  "driver_labels =
     [(''fear_greed'', ''Fear & Greed''), (''news'', ''News Sentiment''),
      (''social'', ''Social Buzz''), (''price_action'', ''Price Action''),
      (''on_chain'', ''On-chain Activity''), (''liquidity'', ''Liquidity'')]"

text \<open>
  \<^verbatim>\<open>build_sentiment_payload\<close>: the payload returned, the state written and the history
  written, or the exception that ends the run. Nothing is written before the payload is
  assembled, so a run that raises leaves both files as they were.
\<close>

definition build_sentiment_payload :: "world \<Rightarrow> py_error + json \<times> json \<times> json" where
  "build_sentiment_payload w =
     (let prev_state = load_previous_state (state_file w);
          fg = get_fear_greed (fng_reply w);
          change_24h = get_btc_price_change (price_reply w);
          news = get_news_sentiment prev_state (noise_news w);
          social = get_social_sentiment prev_state (noise_social w);
          onchain = get_onchain_sentiment prev_state (noise_onchain w);
          price_sent = price_action_sentiment change_24h;
          liquidity = get_liquidity_sentiment (vol_now_reply w) (vol_hist_reply w);
          driver_values =
            [(''fear_greed'', fg), (''news'', news), (''social'', social),
             (''price_action'', price_sent), (''on_chain'', onchain), (''liquidity'', liquidity)]
      in bind_err (compute_deltas driver_values prev_state)
           (\<lambda>deltas. bind_err (total_value_of driver_values weights)
              (\<lambda>total_value. bind_err (drivers_struct driver_values deltas driver_labels)
                 (\<lambda>ds.
                    let payload =
                          JDict [(''timestamp'', JStr (now_payload w)),
                                 (''total'', JDict [(''value'', JInt total_value)]),
                                 (''drivers'', JDict ds),
                                 (''value'', JInt total_value),
                                 (''fear_greed'', JInt fg),
                                 (''news_sentiment'', JInt news),
                                 (''price_sentiment'', JInt price_sent),
                                 (''price_change_24h'', JFloat change_24h),
                                 (''liquidity_sentiment'', JInt liquidity)]
                    in bind_err (update_history (history_file w) (now_history w) total_value driver_values)
                         (\<lambda>history. Inr (payload, save_state driver_values (now_state w), history))))))"

text \<open>Reading a payload, a state or a history back: a path of keys through nested dicts.\<close>

fun json_path :: "json \<Rightarrow> string list \<Rightarrow> json option" where
  "json_path v [] = Some v"
| "json_path (JDict kvs) (k # ks) =
     (case map_of kvs k of Some v \<Rightarrow> json_path v ks | None \<Rightarrow> None)"
| "json_path v (k # ks) = None"

text \<open>The points of a history value, empty when it has none.\<close>

definition history_points :: "json \<Rightarrow> json list" where
  "history_points h =
     (case json_path h [''points''] of Some (JList ps) \<Rightarrow> ps | _ \<Rightarrow> [])"

section \<open>Observations used to state the properties\<close>

text \<open>
  The number the previous state holds for a driver: the state is an object, its
  \<^verbatim>\<open>drivers\<close> entry is an object, and the entry under the driver's name is an int or a
  float (a boolean included, as \<^verbatim>\<open>isinstance\<close> has it).
\<close>

definition stored_value :: "json \<Rightarrow> string \<Rightarrow> real option" where
  "stored_value prev_state name =
     (case json_path prev_state [''drivers'', name] of
        Some v \<Rightarrow> as_number v
      | None \<Rightarrow> None)"

text \<open>A history value of the expected shape: an object whose \<^verbatim>\<open>points\<close> entry is a list.\<close>

definition has_points_list :: "json \<Rightarrow> bool" where
  "has_points_list v = (case json_path v [''points''] of Some (JList ps) \<Rightarrow> True | _ \<Rightarrow> False)"


text \<open>The six driver names.\<close>

definition driver_names :: "string list" where
  "driver_names = [''fear_greed'', ''news'', ''social'', ''price_action'', ''on_chain'', ''liquidity'']"

text \<open>The six driver values of a run, in the order of the dict literal.\<close>

definition run_driver_values :: "world \<Rightarrow> (string \<times> int) list" where
  "run_driver_values w =
     (let prev_state = load_previous_state (state_file w)
      in [(''fear_greed'', get_fear_greed (fng_reply w)),
          (''news'', get_news_sentiment prev_state (noise_news w)),
          (''social'', get_social_sentiment prev_state (noise_social w)),
          (''price_action'', price_action_sentiment (get_btc_price_change (price_reply w))),
          (''on_chain'', get_onchain_sentiment prev_state (noise_onchain w)),
          (''liquidity'', get_liquidity_sentiment (vol_now_reply w) (vol_hist_reply w))])"

text \<open>A first run on which the index source answers 1000.\<close>

definition unclamped_world :: world where
  "unclamped_world =
     \<lparr>state_file = FileMissing, history_file = FileMissing, fng_reply = Some 1000,
      price_reply = None, vol_now_reply = None, vol_hist_reply = None,
      noise_news = 0, noise_social = 0, noise_onchain = 0,
      now_payload = ''t1'', now_state = ''t2'', now_history = ''t3''\<rparr>"

text \<open>A run whose state file holds \<^verbatim>\<open>{"drivers": null}\<close>.\<close>

definition corrupt_state_world :: world where
  "corrupt_state_world =
     \<lparr>state_file = Loaded (JDict [(''drivers'', JNull)]), history_file = FileMissing,
      fng_reply = Some 55, price_reply = None, vol_now_reply = None, vol_hist_reply = None,
      noise_news = 0, noise_social = 0, noise_onchain = 0,
      now_payload = ''t1'', now_state = ''t2'', now_history = ''t3''\<rparr>"

text \<open>A later run: a state with two drivers, a history of one point, all sources answering.\<close>

definition second_run_world :: world where
  "second_run_world =
     \<lparr>state_file = Loaded (JDict [(''drivers'', JDict [(''fear_greed'', JInt 40), (''news'', JInt 60)]),
                                  (''timestamp'', JStr ''t0'')]),
      history_file = Loaded (JDict [(''points'', JList [JNull])]),
      fng_reply = Some 55, price_reply = Some 10, vol_now_reply = Some 4,
      vol_hist_reply = Some [3, 4, 5],
      noise_news = 1, noise_social = 0, noise_onchain = -2,
      now_payload = ''t1'', now_state = ''t2'', now_history = ''t3''\<rparr>"

section \<open>Rounding\<close>

lemma py_round_of_int: "py_round (of_int n) = n"
  by (simp add: py_round_def)

lemma py_round_numeral: "py_round (numeral k) = numeral k"
  using py_round_of_int [of "numeral k"] by simp

lemma py_round_zero: "py_round 0 = 0"
  using py_round_of_int [of 0] by simp


lemma py_round_lower: "\<lfloor>x\<rfloor> \<le> py_round x"
  by (simp add: py_round_def Let_def)

lemma py_round_upper: "py_round x \<le> \<lfloor>x\<rfloor> + 1"
  by (simp add: py_round_def Let_def)

lemma py_round_mono:
  assumes "x \<le> y"
  shows "py_round x \<le> py_round y"
proof (cases "\<lfloor>x\<rfloor> = \<lfloor>y\<rfloor>")
  case True
  with assms show ?thesis
    by (auto simp: py_round_def Let_def)
next
  case False
  with assms have "\<lfloor>x\<rfloor> < \<lfloor>y\<rfloor>"
    using floor_mono [OF assms] by linarith
  then have "\<lfloor>x\<rfloor> + 1 \<le> \<lfloor>y\<rfloor>" by simp
  with py_round_upper [of x] py_round_lower [of y] show ?thesis by linarith
qed

lemma py_round_range: "0 \<le> x \<Longrightarrow> x \<le> 100 \<Longrightarrow> 0 \<le> py_round x \<and> py_round x \<le> 100"
  using py_round_mono [of 0 x] py_round_mono [of x 100]
  by (simp add: py_round_numeral py_round_zero)

section \<open>Driver mappers\<close>





section \<open>Weighted total\<close>





section \<open>Simulator\<close>





section \<open>Loading the state and the history\<close>

lemma has_points_list_empty_history: "has_points_list empty_history"
  by (simp add: has_points_list_def empty_history_def)

lemma load_history_body_cases:
  "load_history_body data = Inr (if has_points_list data then data else empty_history)
   \<or> (\<not> has_points_list data \<and> load_history_body data = Inl TypeError)"
proof (cases data)
  case (JDict kvs)
  show ?thesis
  proof (cases "map_of kvs ''points''")
    case None
    with JDict show ?thesis
      by (simp add: load_history_body_def py_contains_def bind_err_def has_points_list_def)
  next
    case (Some p)
    with JDict show ?thesis
      by (cases p)
        (simp_all add: load_history_body_def py_contains_def py_getitem_def py_item_def
          bind_err_def has_points_list_def is_list_def)
  qed
qed (simp_all add: load_history_body_def py_contains_def py_getitem_def bind_err_def
      has_points_list_def)

lemma load_history_Loaded:
  "load_history (Loaded data) = (if has_points_list data then data else empty_history)"
  using load_history_body_cases [of data]
  by (auto simp: load_history_def)

lemma load_history_has_points: "has_points_list (load_history f)"
  by (cases f) (simp_all add: load_history_Loaded has_points_list_empty_history,
       simp_all add: load_history_def has_points_list_empty_history)

lemma has_points_listD:
  "has_points_list h \<Longrightarrow>
     \<exists>kvs ps. h = JDict kvs \<and> map_of kvs ''points'' = Some (JList ps) \<and> history_points h = ps"
  by (cases h) (auto simp: has_points_list_def history_points_def split: option.splits json.splits)

lemma history_points_update:
  "history_points (JDict (AList.update ''points'' (JList ps) kvs)) = ps"
  by (simp add: history_points_def update_conv')

text \<open>
  C9, amended. Neither load raises. A missing file and a file whose reading or parsing
  raises give the empty snapshot and the empty history. A file that parses is returned by
  the state load as it is, whatever its shape; the history load returns it when it is an
  object whose points entry is a list, and the empty history otherwise.
\<close>

theorem load_fail_soft:
  "load_previous_state FileMissing = JDict []
   \<and> load_previous_state LoadRaises = JDict []
   \<and> load_previous_state (Loaded v) = v
   \<and> load_history FileMissing = empty_history
   \<and> load_history LoadRaises = empty_history
   \<and> load_history (Loaded v) = (if has_points_list v then v else empty_history)
   \<and> history_points empty_history = []"
  by (simp add: load_previous_state_def load_history_Loaded)
     (simp add: load_history_def history_points_def empty_history_def)

text \<open>A state file holding a JSON list is handed on as that list, not as the empty snapshot.\<close>

theorem load_previous_state_counterexample:
  "load_previous_state (Loaded (JList [JInt 1])) \<noteq> JDict []"
  by (simp add: load_previous_state_def)

section \<open>History bound\<close>

lemma append_point_drop:
  "append_point ps e = drop (length ps + 1 - MAX_HISTORY_POINTS) (ps @ [e])"
  by (simp add: append_point_def Let_def)

lemma update_history_points:
  "\<exists>h. update_history f now tot dv = Inr h
     \<and> history_points h = append_point (history_points (load_history f)) (history_entry now tot dv)"
proof -
  from has_points_listD [OF load_history_has_points [of f]]
  obtain kvs ps where k: "load_history f = JDict kvs" "map_of kvs ''points'' = Some (JList ps)"
    and p: "history_points (load_history f) = ps" by blast
  have "update_history f now tot dv =
      Inr (JDict (AList.update ''points'' (JList (append_point ps (history_entry now tot dv))) kvs))"
    by (simp add: update_history_def k)
  then show ?thesis
    unfolding p by (simp add: history_points_update)
qed

text \<open>
  C7. Whatever the history file holds, the update succeeds and writes the loaded points
  followed by the new entry, cut to the last 200: at most 200 points, in their order, the
  new entry last. A log of 200 points becomes a log of 200 points that starts with the
  old log's second point.
\<close>

theorem history_bound:
  "\<exists>h. update_history f now tot dv = Inr h
     \<and> history_points h =
         drop (length (history_points (load_history f)) + 1 - 200)
           (history_points (load_history f) @ [history_entry now tot dv])
     \<and> length (history_points h) = min 200 (length (history_points (load_history f)) + 1)
     \<and> last (history_points h) = history_entry now tot dv
     \<and> (length (history_points (load_history f)) = 200
          \<longrightarrow> length (history_points h) = 200
            \<and> hd (history_points h) = history_points (load_history f) ! 1)"
proof -
  define ps where "ps = history_points (load_history f)"
  define e where "e = history_entry now tot dv"
  from update_history_points [of f now tot dv]
  obtain h where h: "update_history f now tot dv = Inr h"
    "history_points h = append_point ps e" by (auto simp: ps_def e_def)
  have d: "history_points h = drop (length ps + 1 - 200) (ps @ [e])"
    using h by (simp add: append_point_drop MAX_HISTORY_POINTS_def)
  have l: "length (history_points h) = min 200 (length ps + 1)"
    unfolding d by simp
  have la: "last (history_points h) = e"
    unfolding d by (simp add: last_drop)
  have f: "length ps = 200 \<longrightarrow> length (history_points h) = 200 \<and> hd (history_points h) = ps ! 1"
  proof
    assume n: "length ps = 200"
    then have "history_points h = drop 1 ps @ [e]" unfolding d by simp
    moreover from n have "hd (drop 1 ps @ [e]) = ps ! 1"
      by (simp add: hd_append hd_drop_conv_nth)
    ultimately show "length (history_points h) = 200 \<and> hd (history_points h) = ps ! 1"
      using n l by simp
  qed
  from h d l la f show ?thesis
    unfolding ps_def e_def by blast
qed

theorem history_bound_witness:
  "\<exists>h. update_history (Loaded (JDict [(''points'', JList (map (\<lambda>i. JInt (int i)) [0..<200]))])) ''t'' 50 [] = Inr h
     \<and> length (history_points h) = 200
     \<and> hd (history_points h) = JInt 1
     \<and> last (history_points h) = history_entry ''t'' 50 []"
proof -
  let ?f = "Loaded (JDict [(''points'', JList (map (\<lambda>i. JInt (int i)) [0..<200]))])"
  have p: "history_points (load_history ?f) = map (\<lambda>i. JInt (int i)) [0..<200]"
    by (simp add: load_history_Loaded has_points_list_def history_points_def)
  from history_bound [of ?f "''t''" 50 "[]"] show ?thesis
    unfolding p by (auto simp del: upt_Suc)
qed

section \<open>Runs\<close>

lemma drivers_struct_Inr:
  "drivers_struct dv deltas ls = Inr ds \<Longrightarrow>
   ds = map (\<lambda>(k, l). (k, JDict [(''label'', JStr l), (''value'', JInt (the (map_of dv k))),
                                  (''delta'', JInt (the (map_of deltas k)))])) ls"
proof (induction ls arbitrary: ds)
  case Nil
  then show ?case by simp
next
  case (Cons a ls)
  obtain k l where a: "a = (k, l)" by (cases a)
  from Cons.prems obtain r rs where
    r: "driver_record dv deltas k l = Inr r" and rs: "drivers_struct dv deltas ls = Inr rs"
    and ds: "ds = r # rs"
    by (auto simp: a bind_err_def split: sum.splits)
  from r have "r = (k, JDict [(''label'', JStr l), (''value'', JInt (the (map_of dv k))),
                               (''delta'', JInt (the (map_of deltas k)))])"
    by (auto simp: driver_record_def py_item_def bind_err_def split: option.splits)
  with Cons.IH [OF rs] ds a show ?case by simp
qed

lemma build_Inr:
  assumes "build_sentiment_payload w = Inr (payload, st, h)"
  shows "\<exists>deltas tot.
      compute_deltas (run_driver_values w) (load_previous_state (state_file w)) = Inr deltas
    \<and> total_value_of (run_driver_values w) weights = Inr tot
    \<and> update_history (history_file w) (now_history w) tot (run_driver_values w) = Inr h
    \<and> st = save_state (run_driver_values w) (now_state w)
    \<and> payload =
        JDict [(''timestamp'', JStr (now_payload w)),
               (''total'', JDict [(''value'', JInt tot)]),
               (''drivers'', JDict (map (\<lambda>(k, l). (k, JDict [(''label'', JStr l),
                    (''value'', JInt (the (map_of (run_driver_values w) k))),
                    (''delta'', JInt (the (map_of deltas k)))])) driver_labels)),
               (''value'', JInt tot),
               (''fear_greed'', JInt (get_fear_greed (fng_reply w))),
               (''news_sentiment'', JInt (get_news_sentiment (load_previous_state (state_file w)) (noise_news w))),
               (''price_sentiment'', JInt (price_action_sentiment (get_btc_price_change (price_reply w)))),
               (''price_change_24h'', JFloat (get_btc_price_change (price_reply w))),
               (''liquidity_sentiment'', JInt (get_liquidity_sentiment (vol_now_reply w) (vol_hist_reply w)))]"
proof -
  from assms obtain deltas tot ds where
    d: "compute_deltas (run_driver_values w) (load_previous_state (state_file w)) = Inr deltas"
    and t: "total_value_of (run_driver_values w) weights = Inr tot"
    and s: "drivers_struct (run_driver_values w) deltas driver_labels = Inr ds"
    and u: "update_history (history_file w) (now_history w) tot (run_driver_values w) = Inr h"
    and st: "st = save_state (run_driver_values w) (now_state w)"
    and p: "payload =
        JDict [(''timestamp'', JStr (now_payload w)),
               (''total'', JDict [(''value'', JInt tot)]),
               (''drivers'', JDict ds),
               (''value'', JInt tot),
               (''fear_greed'', JInt (get_fear_greed (fng_reply w))),
               (''news_sentiment'', JInt (get_news_sentiment (load_previous_state (state_file w)) (noise_news w))),
               (''price_sentiment'', JInt (price_action_sentiment (get_btc_price_change (price_reply w)))),
               (''price_change_24h'', JFloat (get_btc_price_change (price_reply w))),
               (''liquidity_sentiment'', JInt (get_liquidity_sentiment (vol_now_reply w) (vol_hist_reply w)))]"
    unfolding build_sentiment_payload_def run_driver_values_def Let_def bind_err_def
    by (auto split: sum.splits)
  from drivers_struct_Inr [OF s] d t u st p show ?thesis by blast
qed

section \<open>Payload\<close>

text \<open>
  C10. In every payload a run returns, the top-level value is the value of the total
  record, and fear_greed, news_sentiment, price_sentiment and liquidity_sentiment are the
  values of the fear_greed, news, price_action and liquidity driver records; all of them
  are present integers.
\<close>

theorem legacy_fields_agree:
  "build_sentiment_payload w = Inr (payload, st, h) \<longrightarrow>
     (\<exists>v. json_path payload [''value''] = Some (JInt v)
         \<and> json_path payload [''total'', ''value''] = Some (JInt v))
   \<and> (\<exists>v. json_path payload [''fear_greed''] = Some (JInt v)
         \<and> json_path payload [''drivers'', ''fear_greed'', ''value''] = Some (JInt v))
   \<and> (\<exists>v. json_path payload [''news_sentiment''] = Some (JInt v)
         \<and> json_path payload [''drivers'', ''news'', ''value''] = Some (JInt v))
   \<and> (\<exists>v. json_path payload [''price_sentiment''] = Some (JInt v)
         \<and> json_path payload [''drivers'', ''price_action'', ''value''] = Some (JInt v))
   \<and> (\<exists>v. json_path payload [''liquidity_sentiment''] = Some (JInt v)
         \<and> json_path payload [''drivers'', ''liquidity'', ''value''] = Some (JInt v))"
proof
  assume "build_sentiment_payload w = Inr (payload, st, h)"
  from build_Inr [OF this] obtain deltas tot where
    p: "payload =
        JDict [(''timestamp'', JStr (now_payload w)),
               (''total'', JDict [(''value'', JInt tot)]),
               (''drivers'', JDict (map (\<lambda>(k, l). (k, JDict [(''label'', JStr l),
                    (''value'', JInt (the (map_of (run_driver_values w) k))),
                    (''delta'', JInt (the (map_of deltas k)))])) driver_labels)),
               (''value'', JInt tot),
               (''fear_greed'', JInt (get_fear_greed (fng_reply w))),
               (''news_sentiment'', JInt (get_news_sentiment (load_previous_state (state_file w)) (noise_news w))),
               (''price_sentiment'', JInt (price_action_sentiment (get_btc_price_change (price_reply w)))),
               (''price_change_24h'', JFloat (get_btc_price_change (price_reply w))),
               (''liquidity_sentiment'', JInt (get_liquidity_sentiment (vol_now_reply w) (vol_hist_reply w)))]"
    by blast
  show "(\<exists>v. json_path payload [''value''] = Some (JInt v)
         \<and> json_path payload [''total'', ''value''] = Some (JInt v))
   \<and> (\<exists>v. json_path payload [''fear_greed''] = Some (JInt v)
         \<and> json_path payload [''drivers'', ''fear_greed'', ''value''] = Some (JInt v))
   \<and> (\<exists>v. json_path payload [''news_sentiment''] = Some (JInt v)
         \<and> json_path payload [''drivers'', ''news'', ''value''] = Some (JInt v))
   \<and> (\<exists>v. json_path payload [''price_sentiment''] = Some (JInt v)
         \<and> json_path payload [''drivers'', ''price_action'', ''value''] = Some (JInt v))
   \<and> (\<exists>v. json_path payload [''liquidity_sentiment''] = Some (JInt v)
         \<and> json_path payload [''drivers'', ''liquidity'', ''value''] = Some (JInt v))"
    unfolding p by (simp add: driver_labels_def run_driver_values_def Let_def)
qed

lemma compute_deltas_first_run:
  "compute_deltas
     [(''fear_greed'', a), (''news'', b), (''social'', c),
      (''price_action'', d), (''on_chain'', e), (''liquidity'', f)] (JDict []) =
   Inr [(''fear_greed'', 0), (''news'', 0), (''social'', 0),
        (''price_action'', 0), (''on_chain'', 0), (''liquidity'', 0)]"
  by (simp add: compute_deltas_def py_get_def dict_get_def delta_of_def bind_err_def)


lemma drivers_struct_six:
  "drivers_struct
     [(''fear_greed'', a), (''news'', b), (''social'', c),
      (''price_action'', d), (''on_chain'', e), (''liquidity'', f)]
     [(''fear_greed'', a'), (''news'', b'), (''social'', c'),
      (''price_action'', d'), (''on_chain'', e'), (''liquidity'', f')] driver_labels =
   Inr [(''fear_greed'', JDict [(''label'', JStr ''Fear & Greed''), (''value'', JInt a), (''delta'', JInt a')]),
        (''news'', JDict [(''label'', JStr ''News Sentiment''), (''value'', JInt b), (''delta'', JInt b')]),
        (''social'', JDict [(''label'', JStr ''Social Buzz''), (''value'', JInt c), (''delta'', JInt c')]),
        (''price_action'', JDict [(''label'', JStr ''Price Action''), (''value'', JInt d), (''delta'', JInt d')]),
        (''on_chain'', JDict [(''label'', JStr ''On-chain Activity''), (''value'', JInt e), (''delta'', JInt e')]),
        (''liquidity'', JDict [(''label'', JStr ''Liquidity''), (''value'', JInt f), (''delta'', JInt f')])]"
  by (simp add: driver_labels_def driver_record_def py_item_def bind_err_def)

lemma update_history_missing:
  "update_history FileMissing now tot dv = Inr (JDict [(''points'', JList [history_entry now tot dv])])"
  by (simp add: update_history_def load_history_def empty_history_def append_point_def
      MAX_HISTORY_POINTS_def)



lemmas run_defs =
  build_sentiment_payload_def Let_def load_previous_state_def get_fear_greed_def
  get_btc_price_change_def get_news_sentiment_def get_social_sentiment_def
  get_onchain_sentiment_def simulate_driver_def get_prev_driver_value_def
  price_action_sentiment_def get_liquidity_sentiment_def liquidity_score_def
  as_number_def dict_get_def

text \<open>
  C1, at an index reply of 1000 on a first run with every other source failing: the
  fear_greed value in the payload is 1000 and the total is 240, both outside [0, 100].
  The index value is the one driver that is not clamped.
\<close>

theorem fear_greed_unclamped:
  "\<exists>payload st h.
      build_sentiment_payload unclamped_world = Inr (payload, st, h)
    \<and> json_path payload [''drivers'', ''fear_greed'', ''value''] = Some (JInt 1000)
    \<and> json_path payload [''fear_greed''] = Some (JInt 1000)
    \<and> json_path payload [''total'', ''value''] = Some (JInt 240)"
  by (simp add: unclamped_world_def run_defs py_round_numeral compute_deltas_first_run
      drivers_struct_six update_history_missing bind_err_def
      total_value_of_def weights_def py_item_def)

text \<open>
  C6, at a previous state whose drivers entry is null: \<open>compute_deltas\<close> raises
  \<^verbatim>\<open>AttributeError\<close> and so does the whole run, where \<open>get_prev_driver_value\<close> on
  the same state falls back to its default.
\<close>

theorem compute_deltas_raises:
  "compute_deltas [(''fear_greed'', 55)] (JDict [(''drivers'', JNull)]) = Inl AttributeError
   \<and> get_prev_driver_value (JDict [(''drivers'', JNull)]) ''fear_greed'' 50 = 50
   \<and> build_sentiment_payload corrupt_state_world = Inl AttributeError"
  by (simp add: corrupt_state_world_def run_defs compute_deltas_def py_get_def bind_err_def)

lemma second_run_succeeds:
  "\<exists>payload st h. build_sentiment_payload second_run_world = Inr (payload, st, h)"
proof -
  have "\<exists>r. build_sentiment_payload second_run_world = Inr r"
    by (simp add: second_run_world_def run_defs py_round_numeral compute_deltas_def py_get_def
      delta_of_def drivers_struct_six update_history_def load_history_def load_history_body_def
      py_contains_def py_getitem_def is_list_def bind_err_def
      total_value_of_def weights_def py_item_def)
  then show ?thesis
    by (metis prod_cases3)
qed

theorem legacy_fields_agree_witness:
  "\<exists>payload st h.
      build_sentiment_payload second_run_world = Inr (payload, st, h)
    \<and> json_path payload [''value''] = json_path payload [''total'', ''value'']
    \<and> json_path payload [''fear_greed''] = Some (JInt 55)
    \<and> json_path payload [''drivers'', ''fear_greed'', ''value''] = Some (JInt 55)
    \<and> json_path payload [''price_sentiment''] = json_path payload [''drivers'', ''price_action'', ''value'']"
proof -
  from second_run_succeeds
  obtain payload st h where b: "build_sentiment_payload second_run_world = Inr (payload, st, h)"
    by blast
  have f: "get_fear_greed (fng_reply second_run_world) = 55"
    by (simp add: second_run_world_def get_fear_greed_def)
  from build_Inr [OF b] f have "json_path payload [''fear_greed''] = Some (JInt 55)"
    by auto
  with legacy_fields_agree [of second_run_world payload st h] b show ?thesis
    by auto
qed

lemma delta_of_number:
  "delta_of v j = (case as_number j of Some x \<Rightarrow> py_round (of_int v - x) | None \<Rightarrow> 0)"
proof (cases j)
  case (JInt p)
  have "py_round (of_int v - of_int p) = v - p"
    using py_round_of_int [of "v - p"] by simp
  with JInt show ?thesis by (simp add: delta_of_def as_number_def)
next
  case (JBool b)
  have "py_round (of_int v - 1) = v - 1"
    using py_round_of_int [of "v - 1"] by simp
  with JBool show ?thesis by (simp add: delta_of_def as_number_def py_round_of_int)
qed (simp_all add: delta_of_def as_number_def)

lemma update_fresh: "k \<notin> fst ` set al \<Longrightarrow> AList.update k v al = al @ [(k, v)]"
  by (induction al) auto

lemma deltas_loop_dict:
  "distinct (map fst acc @ map fst cur) \<Longrightarrow>
   deltas_loop (JDict ds) cur acc =
     Inr (acc @ map (\<lambda>(k, v). (k, delta_of v (dict_get ds k))) cur)"
proof (induction cur arbitrary: acc)
  case Nil
  then show ?case by simp
next
  case (Cons a cur)
  obtain k v where a: "a = (k, v)" by (cases a)
  from Cons.prems a have fresh: "k \<notin> fst ` set acc" by auto
  from Cons.prems a have "distinct (map fst (acc @ [(k, delta_of v (dict_get ds k))]) @ map fst cur)"
    by auto
  from Cons.IH [OF this] show ?case
    by (simp add: a py_get_def bind_err_def update_fresh [OF fresh])
qed

lemma deltas_loop_not_dict:
  "\<not> is_dict pd \<Longrightarrow> cur \<noteq> [] \<Longrightarrow> deltas_loop pd cur acc = Inl AttributeError"
  by (cases cur; cases pd) (auto simp: is_dict_def py_get_def bind_err_def)

text \<open>
  When the previous state has no drivers entry, or an object there, every current driver
  gets its delta: the rounded difference to the stored number, 0 when there is none.
\<close>

theorem compute_deltas_spec:
  "distinct (map fst current)
   \<and> (json_path previous [''drivers''] = None
      \<or> (\<exists>ds. json_path previous [''drivers''] = Some (JDict ds)))
   \<longrightarrow> compute_deltas current previous =
         Inr (map (\<lambda>(k, v). (k, case stored_value previous k of
                                   Some x \<Rightarrow> py_round (of_int v - x)
                                 | None \<Rightarrow> 0)) current)"
proof
  assume a: "distinct (map fst current)
   \<and> (json_path previous [''drivers''] = None
      \<or> (\<exists>ds. json_path previous [''drivers''] = Some (JDict ds)))"
  then have dist: "distinct (map fst [] @ map fst current)" by simp
  define pd where "pd = (case json_path previous [''drivers''] of Some (JDict ds) \<Rightarrow> ds | _ \<Rightarrow> [])"
  have c: "compute_deltas current previous = deltas_loop (JDict pd) current []"
    using a by (cases previous) (auto simp: compute_deltas_def pd_def split: option.splits)
  have s: "stored_value previous k = as_number (dict_get pd k)" for k
    using a by (cases previous)
      (auto simp: stored_value_def pd_def dict_get_def as_number_def split: option.splits)
  show "compute_deltas current previous =
         Inr (map (\<lambda>(k, v). (k, case stored_value previous k of
                                   Some x \<Rightarrow> py_round (of_int v - x)
                                 | None \<Rightarrow> 0)) current)"
    unfolding c deltas_loop_dict [OF dist] by (simp add: delta_of_number s)
qed

theorem compute_deltas_spec_witness:
  "compute_deltas [(''fear_greed'', 55)] (JDict [(''drivers'', JDict [(''fear_greed'', JInt 40)])])
     = Inr [(''fear_greed'', 15)]
   \<and> compute_deltas [(''fear_greed'', 55), (''news'', 48)] (JDict [])
     = Inr [(''fear_greed'', 0), (''news'', 0)]"
  using compute_deltas_spec [of "[(''fear_greed'', 55)]" "JDict [(''drivers'', JDict [(''fear_greed'', JInt 40)])]"]
    compute_deltas_spec [of "[(''fear_greed'', 55), (''news'', 48)]" "JDict []"]
    py_round_of_int [of 15]
  by (simp add: stored_value_def as_number_def)

lemma simulate_driver_range:
  "0 \<le> simulate_driver name prev base vol mr noise \<and> simulate_driver name prev base vol mr noise \<le> 100"
  by (simp add: simulate_driver_def Let_def)

lemma price_action_sentiment_range:
  "0 \<le> price_action_sentiment c \<and> price_action_sentiment c \<le> 100"
  by (simp add: price_action_sentiment_def Let_def)

lemma get_liquidity_sentiment_range:
  "0 \<le> get_liquidity_sentiment a b \<and> get_liquidity_sentiment a b \<le> 100"
  by (simp add: get_liquidity_sentiment_def liquidity_score_def Let_def split: option.splits)

lemma total_value_of_six_eq:
  "total_value_of
     [(''fear_greed'', a), (''news'', b), (''social'', c),
      (''price_action'', d), (''on_chain'', e), (''liquidity'', f)] weights =
   Inr (py_round (of_int a * (20/100) + of_int b * (15/100) + of_int c * (15/100)
          + of_int d * (20/100) + of_int e * (15/100) + of_int f * (15/100)))"
  by (simp add: total_value_of_def weights_def py_item_def bind_err_def algebra_simps)

lemma total_value_of_six_range:
  assumes "0 \<le> a" "a \<le> 100" "0 \<le> b" "b \<le> 100" "0 \<le> c" "c \<le> 100"
    "0 \<le> d" "d \<le> 100" "0 \<le> e" "e \<le> 100" "0 \<le> f" "f \<le> 100"
    and "total_value_of
     [(''fear_greed'', a), (''news'', b), (''social'', c),
      (''price_action'', d), (''on_chain'', e), (''liquidity'', f)] weights = Inr tot"
  shows "0 \<le> tot \<and> tot \<le> 100"
proof -
  let ?x = "of_int a * (20/100) + of_int b * (15/100) + of_int c * (15/100)
          + of_int d * (20/100) + of_int e * (15/100) + of_int f * (15/100) :: real"
  from assms have r: "(0::real) \<le> of_int a" "of_int a \<le> (100::real)"
    "(0::real) \<le> of_int b" "of_int b \<le> (100::real)"
    "(0::real) \<le> of_int c" "of_int c \<le> (100::real)"
    "(0::real) \<le> of_int d" "of_int d \<le> (100::real)"
    "(0::real) \<le> of_int e" "of_int e \<le> (100::real)"
    "(0::real) \<le> of_int f" "of_int f \<le> (100::real)"
    by simp_all
  then have "0 \<le> ?x" "?x \<le> 100" by linarith+
  from py_round_range [OF this] assms(13) show ?thesis
    by (simp add: total_value_of_six_eq)
qed

text \<open>
  When the index value lies in [0, 100], so do all six driver values and the total of
  every payload returned.
\<close>

theorem values_in_range:
  "build_sentiment_payload w = Inr (payload, st, h)
   \<and> 0 \<le> get_fear_greed (fng_reply w) \<and> get_fear_greed (fng_reply w) \<le> 100
   \<longrightarrow> (\<forall>k \<in> set driver_names.
          \<exists>v. json_path payload [''drivers'', k, ''value''] = Some (JInt v) \<and> 0 \<le> v \<and> v \<le> 100)
     \<and> (\<exists>t. json_path payload [''total'', ''value''] = Some (JInt t) \<and> 0 \<le> t \<and> t \<le> 100)"
proof
  assume a: "build_sentiment_payload w = Inr (payload, st, h)
   \<and> 0 \<le> get_fear_greed (fng_reply w) \<and> get_fear_greed (fng_reply w) \<le> 100"
  from build_Inr [of w payload st h] a obtain deltas tot where
    t: "total_value_of (run_driver_values w) weights = Inr tot" and
    p: "payload =
        JDict [(''timestamp'', JStr (now_payload w)),
               (''total'', JDict [(''value'', JInt tot)]),
               (''drivers'', JDict (map (\<lambda>(k, l). (k, JDict [(''label'', JStr l),
                    (''value'', JInt (the (map_of (run_driver_values w) k))),
                    (''delta'', JInt (the (map_of deltas k)))])) driver_labels)),
               (''value'', JInt tot),
               (''fear_greed'', JInt (get_fear_greed (fng_reply w))),
               (''news_sentiment'', JInt (get_news_sentiment (load_previous_state (state_file w)) (noise_news w))),
               (''price_sentiment'', JInt (price_action_sentiment (get_btc_price_change (price_reply w)))),
               (''price_change_24h'', JFloat (get_btc_price_change (price_reply w))),
               (''liquidity_sentiment'', JInt (get_liquidity_sentiment (vol_now_reply w) (vol_hist_reply w)))]"
    by blast
  have tr: "0 \<le> tot \<and> tot \<le> 100"
    using t a unfolding run_driver_values_def Let_def
      get_news_sentiment_def get_social_sentiment_def get_onchain_sentiment_def
    by (intro total_value_of_six_range [where tot = tot])
       (simp_all add: simulate_driver_range price_action_sentiment_range
          get_liquidity_sentiment_range)
  have d: "\<forall>k \<in> set driver_names.
          \<exists>v. json_path payload [''drivers'', k, ''value''] = Some (JInt v) \<and> 0 \<le> v \<and> v \<le> 100"
    unfolding p using a
    by (simp add: driver_names_def driver_labels_def run_driver_values_def Let_def
        get_news_sentiment_def get_social_sentiment_def get_onchain_sentiment_def
        simulate_driver_range price_action_sentiment_range get_liquidity_sentiment_range)
  from tr have "\<exists>t. json_path payload [''total'', ''value''] = Some (JInt t) \<and> 0 \<le> t \<and> t \<le> 100"
    unfolding p by simp
  with d show "(\<forall>k \<in> set driver_names.
          \<exists>v. json_path payload [''drivers'', k, ''value''] = Some (JInt v) \<and> 0 \<le> v \<and> v \<le> 100)
     \<and> (\<exists>t. json_path payload [''total'', ''value''] = Some (JInt t) \<and> 0 \<le> t \<and> t \<le> 100)"
    by blast
qed

theorem values_in_range_witness:
  "\<exists>payload st h.
      build_sentiment_payload second_run_world = Inr (payload, st, h)
    \<and> (\<exists>v. json_path payload [''drivers'', ''news'', ''value''] = Some (JInt v) \<and> 0 \<le> v \<and> v \<le> 100)
    \<and> (\<exists>t. json_path payload [''total'', ''value''] = Some (JInt t) \<and> 0 \<le> t \<and> t \<le> 100)"
proof -
  from second_run_succeeds
  obtain payload st h where b: "build_sentiment_payload second_run_world = Inr (payload, st, h)"
    by blast
  have f: "get_fear_greed (fng_reply second_run_world) = 55"
    by (simp add: second_run_world_def get_fear_greed_def)
  from values_in_range [of second_run_world payload st h] b f show ?thesis
    by (auto simp: driver_names_def)
qed

end
